theory Spec2Isabelle
  imports Complex_Main
begin

section \<open>The DCF valuation engine of dashboard.py\<close>

text \<open>
  The module holds one class, \<^verbatim>\<open>DCFValuation\<close>. Its methods are embedded below as
  functions that take the object's state and return the outcome of the call together
  with the state the call leaves behind, so that a raised exception is a value and the
  state after a failed call can be read.

  Numbers are exact reals: the arithmetic is the one Python performs on
  \<^verbatim>\<open>fractions.Fraction\<close> values. Rounding and overflow of binary floating point are
  not part of the model. Division by zero raises in Python (for floats too), and it is
  a branch of the model.
\<close>

subsection \<open>Exceptions\<close>

text \<open>
  The source raises \<^verbatim>\<open>ValueError\<close> at two places, told apart by their message:
  \<^verbatim>\<open>f"Provide {self.fcf_growth_years} growth rates"\<close> (the number is kept as the
  argument of the constructor) and \<^verbatim>\<open>"Run project_fcf() first"\<close>. The interpreter
  itself raises \<^verbatim>\<open>ZeroDivisionError\<close> and \<^verbatim>\<open>IndexError\<close>.
\<close>

datatype message = Provide_growth_rates int | Run_project_fcf_first

datatype py_error = ValueError message | ZeroDivisionError | IndexError

subsection \<open>Python operators that can raise\<close>

definition py_truediv :: "real \<Rightarrow> real \<Rightarrow> py_error + real" where
  "py_truediv a b = (if b = 0 then Inl ZeroDivisionError else Inr (a / b))"

text \<open>\<^verbatim>\<open>b ** n\<close> with an integer exponent: \<^verbatim>\<open>0 ** 0\<close> is 1, and a negative exponent
  divides, so it raises on a zero base.\<close>

definition py_pow :: "real \<Rightarrow> int \<Rightarrow> py_error + real" where
  "py_pow b n =
     (if 0 \<le> n then Inr (b ^ nat n)
      else if b = 0 then Inl ZeroDivisionError
      else Inr (1 / b ^ nat (- n)))"

text \<open>\<^verbatim>\<open>xs[i]\<close>: a negative index counts from the end, an index out of range raises.\<close>

definition py_getitem :: "'a list \<Rightarrow> int \<Rightarrow> py_error + 'a" where
  "py_getitem xs i =
     (if 0 \<le> i \<and> i < int (length xs) then Inr (xs ! nat i)
      else if i < 0 \<and> - int (length xs) \<le> i then Inr (xs ! nat (int (length xs) + i))
      else Inl IndexError)"

text \<open>\<^verbatim>\<open>sum(xs)\<close> starts from 0 and adds from the left.\<close>

definition py_sum :: "real list \<Rightarrow> real" where
  "py_sum xs = foldl (+) 0 xs"

subsection \<open>Data\<close>

text \<open>The dictionaries of the source have fixed string keys; they are records here.\<close>

record projection =
  Year :: int
  FCF :: real
  Growth_Rate :: real

record engine =
  company_name :: string
  fcf_base :: real
  fcf_growth_years :: int
  projections :: "projection list"

record valuation_result =
  PV_of_Projected_FCFs :: real
  Terminal_Value :: real
  PV_of_Terminal_Value :: real
  Enterprise_Value :: real

record equity_result =
  Equity_Value :: real
  Price_Per_Share :: real

type_synonym 'a outcome = "(py_error + 'a) \<times> engine"

definition init :: "string \<Rightarrow> real \<Rightarrow> int \<Rightarrow> engine" where
  "init name base years =
     \<lparr>company_name = name, fcf_base = base, fcf_growth_years = years, projections = []\<rparr>"

subsection \<open>project_fcf\<close>

text \<open>
  The body of \<^verbatim>\<open>for year in range(1, self.fcf_growth_years + 1)\<close>, run over the list
  of years. The local \<^verbatim>\<open>fcf\<close> is threaded through; each round appends one entry to
  \<^verbatim>\<open>self.projections\<close>. The list of rates is read twice per round, as in the source.
\<close>

fun project_fcf_loop :: "int list \<Rightarrow> real list \<Rightarrow> real \<Rightarrow> engine \<Rightarrow> unit outcome" where
  "project_fcf_loop [] growth_rates fcf e = (Inr (), e)"
| "project_fcf_loop (year # years) growth_rates fcf e =
     (case py_getitem growth_rates (year - 1) of
        Inl err \<Rightarrow> (Inl err, e)
      | Inr g \<Rightarrow>
          (let fcf' = fcf * (1 + g) in
           case py_getitem growth_rates (year - 1) of
             Inl err \<Rightarrow> (Inl err, e)
           | Inr g' \<Rightarrow>
               project_fcf_loop years growth_rates fcf'
                 (e\<lparr>projections := projections e @
                      [\<lparr>Year = year, FCF = fcf', Growth_Rate = g'\<rparr>]\<rparr>)))"

definition project_fcf :: "engine \<Rightarrow> real list \<Rightarrow> projection list outcome" where
  "project_fcf e growth_rates =
     (if int (length growth_rates) \<noteq> fcf_growth_years e
      then (Inl (ValueError (Provide_growth_rates (fcf_growth_years e))), e)
      else
        (let fcf = fcf_base e;
             e1 = e\<lparr>projections := []\<rparr>
         in case project_fcf_loop [1..fcf_growth_years e] growth_rates fcf e1 of
              (Inl err, e2) \<Rightarrow> (Inl err, e2)
            | (Inr u, e2) \<Rightarrow> (Inr (projections e2), e2)))"

subsection \<open>calculate_terminal_value\<close>

definition calculate_terminal_value :: "engine \<Rightarrow> real \<Rightarrow> real \<Rightarrow> real outcome" where
  "calculate_terminal_value e terminal_growth_rate wacc =
     (if projections e = [] then (Inl (ValueError Run_project_fcf_first), e)
      else
        (case py_getitem (projections e) (- 1) of
           Inl err \<Rightarrow> (Inl err, e)
         | Inr p \<Rightarrow>
             (let final_fcf = FCF p;
                  terminal_fcf = final_fcf * (1 + terminal_growth_rate)
              in case py_truediv terminal_fcf (wacc - terminal_growth_rate) of
                   Inl err \<Rightarrow> (Inl err, e)
                 | Inr terminal_value \<Rightarrow> (Inr terminal_value, e))))"

subsection \<open>calculate_pv\<close>

text \<open>The body of \<^verbatim>\<open>for projection in self.projections\<close>, with the list
  \<^verbatim>\<open>pv_fcfs\<close> built so far.\<close>

fun calculate_pv_loop :: "projection list \<Rightarrow> real \<Rightarrow> real list \<Rightarrow> py_error + real list" where
  "calculate_pv_loop [] discount_rate pv_fcfs = Inr pv_fcfs"
| "calculate_pv_loop (p # ps) discount_rate pv_fcfs =
     (case py_pow (1 + discount_rate) (Year p) of
        Inl err \<Rightarrow> Inl err
      | Inr d \<Rightarrow>
          (case py_truediv (FCF p) d of
             Inl err \<Rightarrow> Inl err
           | Inr pv \<Rightarrow> calculate_pv_loop ps discount_rate (pv_fcfs @ [pv])))"

definition calculate_pv :: "engine \<Rightarrow> real \<Rightarrow> real list outcome" where
  "calculate_pv e discount_rate = (calculate_pv_loop (projections e) discount_rate [], e)"

subsection \<open>calculate_enterprise_value\<close>

definition calculate_enterprise_value ::
  "engine \<Rightarrow> real list \<Rightarrow> real \<Rightarrow> real \<Rightarrow> valuation_result outcome" where
  "calculate_enterprise_value e growth_rates terminal_growth_rate wacc =
     (case project_fcf e growth_rates of
        (Inl err, e1) \<Rightarrow> (Inl err, e1)
      | (Inr ps, e1) \<Rightarrow>
     (case calculate_pv e1 wacc of
        (Inl err, e2) \<Rightarrow> (Inl err, e2)
      | (Inr pv_fcfs, e2) \<Rightarrow>
     (let pv_fcf_sum = py_sum pv_fcfs in
      case calculate_terminal_value e2 terminal_growth_rate wacc of
        (Inl err, e3) \<Rightarrow> (Inl err, e3)
      | (Inr terminal_value, e3) \<Rightarrow>
     (case py_pow (1 + wacc) (fcf_growth_years e3) of
        Inl err \<Rightarrow> (Inl err, e3)
      | Inr d \<Rightarrow>
     (case py_truediv terminal_value d of
        Inl err \<Rightarrow> (Inl err, e3)
      | Inr pv_terminal_value \<Rightarrow>
     (let enterprise_value = pv_fcf_sum + pv_terminal_value in
      (Inr \<lparr>PV_of_Projected_FCFs = pv_fcf_sum,
            Terminal_Value = terminal_value,
            PV_of_Terminal_Value = pv_terminal_value,
            Enterprise_Value = enterprise_value\<rparr>, e3)))))))"

subsection \<open>calculate_equity_value\<close>

definition calculate_equity_value ::
  "engine \<Rightarrow> real \<Rightarrow> real \<Rightarrow> real \<Rightarrow> equity_result outcome" where
  "calculate_equity_value e enterprise_value net_debt shares_outstanding =
     (let equity_value = enterprise_value - net_debt
      in case py_truediv equity_value shares_outstanding of
           Inl err \<Rightarrow> (Inl err, e)
         | Inr price_per_share \<Rightarrow>
             (Inr \<lparr>Equity_Value = equity_value, Price_Per_Share = price_per_share\<rparr>, e))"

subsection \<open>The example of the module\<close>

definition msft :: engine where
  "msft = init ''Microsoft'' 45000 5"

definition fcf_growth_rates :: "real list" where
  "fcf_growth_rates = [8 / 100, 8 / 100, 7 / 100, 7 / 100, 6 / 100]"

section \<open>Properties\<close>

subsection \<open>The operators\<close>

lemma py_getitem_in_range:
  "0 \<le> i \<Longrightarrow> i < int (length xs) \<Longrightarrow> py_getitem xs i = Inr (xs ! nat i)"
  by (simp add: py_getitem_def)

lemma py_getitem_last:
  "xs \<noteq> [] \<Longrightarrow> py_getitem xs (- 1) = Inr (last xs)"
  by (cases xs rule: rev_cases) (simp_all add: py_getitem_def Let_def nat_add_distrib)

lemma py_sum_sum_list: "py_sum xs = sum_list xs"
proof -
  have "foldl (+) a xs = a + sum_list xs" for a :: real
    by (induction xs arbitrary: a) (simp_all add: add.assoc)
  then show ?thesis by (simp add: py_sum_def)
qed

subsection \<open>Projecting the cash flows\<close>

text \<open>
  The loop never raises when every year it visits indexes into the list of rates. It
  appends one entry per year, and each entry's cash flow is the previous value of the
  local \<^verbatim>\<open>fcf\<close> times one plus the year's rate.
\<close>

lemma project_fcf_loop_entries:
  assumes "\<forall>y \<in> set years. 1 \<le> y \<and> y \<le> int (length growth_rates)"
  shows "\<exists>ps. project_fcf_loop years growth_rates fcf e =
                 (Inr (), e\<lparr>projections := projections e @ ps\<rparr>) \<and>
              length ps = length years \<and>
              (\<forall>k < length years.
                 Year (ps ! k) = years ! k \<and>
                 Growth_Rate (ps ! k) = growth_rates ! nat (years ! k - 1) \<and>
                 FCF (ps ! k) = (if k = 0 then fcf else FCF (ps ! (k - 1))) *
                                (1 + growth_rates ! nat (years ! k - 1)))"
  using assms
proof (induction years arbitrary: fcf e)
  case Nil
  show ?case by simp
next
  case (Cons y ys)
  define g where "g = growth_rates ! nat (y - 1)"
  define p where "p = \<lparr>Year = y, FCF = fcf * (1 + g), Growth_Rate = g\<rparr>"
  define e' where "e' = e\<lparr>projections := projections e @ [p]\<rparr>"
  from Cons.prems have y: "0 \<le> y - 1" "y - 1 < int (length growth_rates)" by simp_all
  have get: "py_getitem growth_rates (y - 1) = Inr g"
    unfolding g_def by (rule py_getitem_in_range [OF y])
  from Cons.prems have "\<forall>y \<in> set ys. 1 \<le> y \<and> y \<le> int (length growth_rates)" by simp
  from Cons.IH [OF this, of "fcf * (1 + g)" e'] obtain ps where
    run: "project_fcf_loop ys growth_rates (fcf * (1 + g)) e' =
            (Inr (), e'\<lparr>projections := projections e' @ ps\<rparr>)" and
    len: "length ps = length ys" and
    ent: "\<forall>k < length ys.
            Year (ps ! k) = ys ! k \<and>
            Growth_Rate (ps ! k) = growth_rates ! nat (ys ! k - 1) \<and>
            FCF (ps ! k) = (if k = 0 then fcf * (1 + g) else FCF (ps ! (k - 1))) *
                           (1 + growth_rates ! nat (ys ! k - 1))"
    by blast
  have step: "project_fcf_loop (y # ys) growth_rates fcf e =
                (Inr (), e\<lparr>projections := projections e @ (p # ps)\<rparr>)"
    using run by (simp add: get Let_def e'_def p_def)
  have "Year ((p # ps) ! k) = (y # ys) ! k \<and>
        Growth_Rate ((p # ps) ! k) = growth_rates ! nat ((y # ys) ! k - 1) \<and>
        FCF ((p # ps) ! k) = (if k = 0 then fcf else FCF ((p # ps) ! (k - 1))) *
                             (1 + growth_rates ! nat ((y # ys) ! k - 1))"
    if "k < length (y # ys)" for k
  proof (cases k)
    case 0
    then show ?thesis by (simp add: p_def g_def)
  next
    case (Suc j)
    with that have j: "j < length ys" by simp
    show ?thesis
    proof (cases j)
      case 0
      with ent j Suc show ?thesis by (simp add: p_def)
    next
      case (Suc i)
      with ent j \<open>k = Suc j\<close> show ?thesis by simp
    qed
  qed
  with step len show ?case by (intro exI [of _ "p # ps"]) simp
qed

lemma project_fcf_succeeds:
  assumes "int (length growth_rates) = fcf_growth_years e"
  obtains ps where
    "project_fcf e growth_rates = (Inr ps, e\<lparr>projections := ps\<rparr>)"
    "length ps = length growth_rates"
    "\<And>k. k < length growth_rates \<Longrightarrow>
        Year (ps ! k) = int k + 1 \<and>
        Growth_Rate (ps ! k) = growth_rates ! k \<and>
        FCF (ps ! k) = (if k = 0 then fcf_base e else FCF (ps ! (k - 1))) *
                       (1 + growth_rates ! k)"
proof -
  let ?n = "fcf_growth_years e"
  have "\<forall>y \<in> set [1..?n]. 1 \<le> y \<and> y \<le> int (length growth_rates)"
    using assms by simp
  from project_fcf_loop_entries [OF this, of "fcf_base e" "e\<lparr>projections := []\<rparr>"]
  obtain ps where
    run: "project_fcf_loop [1..?n] growth_rates (fcf_base e) (e\<lparr>projections := []\<rparr>) =
            (Inr (), e\<lparr>projections := ps\<rparr>)" and
    len: "length ps = length [1..?n]" and
    ent: "\<forall>k < length [1..?n].
            Year (ps ! k) = [1..?n] ! k \<and>
            Growth_Rate (ps ! k) = growth_rates ! nat ([1..?n] ! k - 1) \<and>
            FCF (ps ! k) = (if k = 0 then fcf_base e else FCF (ps ! (k - 1))) *
                           (1 + growth_rates ! nat ([1..?n] ! k - 1))"
    by auto
  have n: "length [1..?n] = length growth_rates"
    using assms by simp
  have nth: "[1..?n] ! k = int k + 1" if "k < length growth_rates" for k
    using that assms by simp
  show thesis
  proof (rule that)
    show "project_fcf e growth_rates = (Inr ps, e\<lparr>projections := ps\<rparr>)"
      using assms run by (simp add: project_fcf_def)
    show "length ps = length growth_rates"
      using len n by simp
    show "Year (ps ! k) = int k + 1 \<and>
          Growth_Rate (ps ! k) = growth_rates ! k \<and>
          FCF (ps ! k) = (if k = 0 then fcf_base e else FCF (ps ! (k - 1))) *
                         (1 + growth_rates ! k)"
      if "k < length growth_rates" for k
      using ent that n by (simp add: nth)
  qed
qed

text \<open>The example's projections, computed.\<close>

lemma msft_projections:
  "snd (project_fcf msft fcf_growth_rates) =
     msft\<lparr>projections :=
       [\<lparr>Year = 1, FCF = 48600, Growth_Rate = 8 / 100\<rparr>,
        \<lparr>Year = 2, FCF = 52488, Growth_Rate = 8 / 100\<rparr>,
        \<lparr>Year = 3, FCF = 1404054 / 25, Growth_Rate = 7 / 100\<rparr>,
        \<lparr>Year = 4, FCF = 75116889 / 1250, Growth_Rate = 7 / 100\<rparr>,
        \<lparr>Year = 5, FCF = 3981195117 / 62500, Growth_Rate = 6 / 100\<rparr>]\<rparr>"
  by (simp add: project_fcf_def fcf_growth_rates_def msft_def init_def py_getitem_def
      Let_def upto_rec1)

text \<open>
  C2. With as many growth rates as \<^verbatim>\<open>fcf_growth_years\<close>, \<^verbatim>\<open>project_fcf\<close> succeeds; it
  returns the list it stores in \<^verbatim>\<open>self.projections\<close> and changes no other field. The list
  has \<^verbatim>\<open>fcf_growth_years\<close> entries, entry \<open>i\<close> (from 0) is for year \<open>i + 1\<close>, and its
  cash flow is the one of the entry before it (\<^verbatim>\<open>fcf_base\<close> for the first) times one plus
  the rate of its own year: the rates are chained, not each applied to the base.
\<close>

theorem project_fcf_chained:
  assumes "int (length growth_rates) = fcf_growth_years e"
  shows "let ps = projections (snd (project_fcf e growth_rates)) in
           project_fcf e growth_rates = (Inr ps, e\<lparr>projections := ps\<rparr>) \<and>
           int (length ps) = fcf_growth_years e \<and>
           (\<forall>i < length ps.
              Year (ps ! i) = int i + 1 \<and>
              Growth_Rate (ps ! i) = growth_rates ! i \<and>
              FCF (ps ! i) = (if i = 0 then fcf_base e else FCF (ps ! (i - 1))) *
                             (1 + growth_rates ! i))"
proof -
  from project_fcf_succeeds [OF assms] obtain ps where
    run: "project_fcf e growth_rates = (Inr ps, e\<lparr>projections := ps\<rparr>)" and
    len: "length ps = length growth_rates" and
    ent: "\<And>k. k < length growth_rates \<Longrightarrow>
            Year (ps ! k) = int k + 1 \<and>
            Growth_Rate (ps ! k) = growth_rates ! k \<and>
            FCF (ps ! k) = (if k = 0 then fcf_base e else FCF (ps ! (k - 1))) *
                           (1 + growth_rates ! k)"
    by blast
  have "projections (snd (project_fcf e growth_rates)) = ps"
    by (simp add: run)
  then show ?thesis
    using run len ent assms by (simp add: Let_def)
qed

theorem project_fcf_chained_witness:
  "int (length fcf_growth_rates) = fcf_growth_years msft \<and>
   fst (project_fcf msft fcf_growth_rates) =
     Inr [\<lparr>Year = 1, FCF = 48600, Growth_Rate = 8 / 100\<rparr>,
          \<lparr>Year = 2, FCF = 52488, Growth_Rate = 8 / 100\<rparr>,
          \<lparr>Year = 3, FCF = 1404054 / 25, Growth_Rate = 7 / 100\<rparr>,
          \<lparr>Year = 4, FCF = 75116889 / 1250, Growth_Rate = 7 / 100\<rparr>,
          \<lparr>Year = 5, FCF = 3981195117 / 62500, Growth_Rate = 6 / 100\<rparr>]"
proof -
  have h: "int (length fcf_growth_rates) = fcf_growth_years msft"
    by (simp add: fcf_growth_rates_def msft_def init_def)
  from project_fcf_chained [OF h] have
    "fst (project_fcf msft fcf_growth_rates) =
       Inr (projections (snd (project_fcf msft fcf_growth_rates)))"
    unfolding Let_def by (metis fst_conv)
  with h show ?thesis by (simp add: msft_projections)
qed

text \<open>
  C7. When the number of growth rates differs from \<^verbatim>\<open>fcf_growth_years\<close>,
  \<^verbatim>\<open>project_fcf\<close> raises the \<^verbatim>\<open>ValueError\<close> asking for that many growth rates
  (the specification's InvalidInputError).
\<close>

theorem project_fcf_wrong_length:
  assumes "int (length growth_rates) \<noteq> fcf_growth_years e"
  shows "fst (project_fcf e growth_rates) =
           Inl (ValueError (Provide_growth_rates (fcf_growth_years e)))"
  using assms by (simp add: project_fcf_def)

theorem project_fcf_wrong_length_witness:
  "int (length [8 / 100, 7 / 100 :: real]) \<noteq> fcf_growth_years msft \<and>
   fst (project_fcf msft [8 / 100, 7 / 100]) = Inl (ValueError (Provide_growth_rates 5))"
  using project_fcf_wrong_length [of "[8 / 100, 7 / 100]" msft]
  by (simp add: msft_def init_def)

text \<open>
  C10. A call of \<^verbatim>\<open>project_fcf\<close> that fails on the length of the list leaves the
  object as it was, whatever projections it held: the test comes before the first
  assignment.
\<close>

theorem project_fcf_wrong_length_state:
  assumes "int (length growth_rates) \<noteq> fcf_growth_years e"
  shows "snd (project_fcf e growth_rates) = e"
  using assms by (simp add: project_fcf_def)

theorem project_fcf_wrong_length_state_witness:
  "int (length [8 / 100, 7 / 100 :: real]) \<noteq>
     fcf_growth_years (snd (project_fcf msft fcf_growth_rates)) \<and>
   projections (snd (project_fcf msft fcf_growth_rates)) \<noteq> [] \<and>
   snd (project_fcf (snd (project_fcf msft fcf_growth_rates)) [8 / 100, 7 / 100]) =
     snd (project_fcf msft fcf_growth_rates)"
proof -
  have h: "int (length [8 / 100, 7 / 100 :: real]) \<noteq>
             fcf_growth_years (snd (project_fcf msft fcf_growth_rates))"
    by (simp add: msft_projections) (simp add: msft_def init_def)
  have "projections (snd (project_fcf msft fcf_growth_rates)) \<noteq> []"
    by (simp add: msft_projections)
  with project_fcf_wrong_length_state [OF h] h show ?thesis by blast
qed

subsection \<open>The terminal value\<close>

lemma calculate_terminal_value_nonempty:
  assumes "projections e \<noteq> []"
  shows "calculate_terminal_value e g wacc =
           (py_truediv (FCF (last (projections e)) * (1 + g)) (wacc - g), e)"
  using assms
  by (simp add: calculate_terminal_value_def py_getitem_last Let_def split: sum.split)

lemma calculate_terminal_value_before_projection:
  assumes "projections e = []"
  shows "calculate_terminal_value e g wacc = (Inl (ValueError Run_project_fcf_first), e)"
  using assms by (simp add: calculate_terminal_value_def)

text \<open>
  C6. On an object with projections, and with a discount rate above the terminal growth
  rate, \<^verbatim>\<open>calculate_terminal_value\<close> returns the cash flow of the last stored entry
  times one plus the terminal growth rate, divided by the difference of the two rates.
  No other entry occurs in the result, and the object is returned as it was.
\<close>

theorem terminal_value_formula:
  assumes "projections e \<noteq> []" and "terminal_growth_rate < wacc"
  shows "calculate_terminal_value e terminal_growth_rate wacc =
           (Inr (FCF (last (projections e)) * (1 + terminal_growth_rate) /
                 (wacc - terminal_growth_rate)), e)"
  using assms by (simp add: calculate_terminal_value_nonempty py_truediv_def)

theorem terminal_value_formula_witness:
  "projections (snd (project_fcf msft fcf_growth_rates)) \<noteq> [] \<and>
   (25 / 1000 :: real) < 7 / 100 \<and>
   calculate_terminal_value (snd (project_fcf msft fcf_growth_rates)) (25 / 1000) (7 / 100) =
     (Inr (18136555533 / 12500), snd (project_fcf msft fcf_growth_rates))"
proof -
  have h1: "projections (snd (project_fcf msft fcf_growth_rates)) \<noteq> []"
    by (simp add: msft_projections)
  have h2: "(25 / 1000 :: real) < 7 / 100" by simp
  from terminal_value_formula [OF h1 h2] h1 h2 show ?thesis
    by (simp add: msft_projections)
qed

text \<open>
  C1, as the code has it. \<^verbatim>\<open>calculate_terminal_value\<close> does not compare the two rates.
  With a discount rate below the terminal growth rate it returns the quotient of the
  formula, over a negative denominator; with equal rates the division raises
  \<^verbatim>\<open>ZeroDivisionError\<close>, which is not the \<^verbatim>\<open>ValueError\<close> of the module. The object is
  unchanged in both cases.
\<close>

theorem terminal_value_no_rate_check:
  assumes "projections e \<noteq> []" and "wacc \<le> terminal_growth_rate"
  shows "calculate_terminal_value e terminal_growth_rate wacc =
           (if wacc = terminal_growth_rate then Inl ZeroDivisionError
            else Inr (FCF (last (projections e)) * (1 + terminal_growth_rate) /
                      (wacc - terminal_growth_rate)), e)"
  using assms by (simp add: calculate_terminal_value_nonempty py_truediv_def)

theorem terminal_value_no_rate_check_witness:
  "projections (snd (project_fcf msft fcf_growth_rates)) \<noteq> [] \<and>
   (7 / 100 :: real) \<le> 7 / 100 \<and> (3 / 100 :: real) \<le> 7 / 100 \<and>
   fst (calculate_terminal_value (snd (project_fcf msft fcf_growth_rates)) (7 / 100) (7 / 100)) =
     Inl ZeroDivisionError \<and>
   fst (calculate_terminal_value (snd (project_fcf msft fcf_growth_rates)) (7 / 100) (3 / 100)) =
     Inr (- (425987877519 / 250000))"
proof -
  have h1: "projections (snd (project_fcf msft fcf_growth_rates)) \<noteq> []"
    by (simp add: msft_projections)
  have h2: "(7 / 100 :: real) \<le> 7 / 100" and h3: "(3 / 100 :: real) \<le> 7 / 100"
    by simp_all
  from terminal_value_no_rate_check [OF h1 h2] terminal_value_no_rate_check [OF h1 h3] h1
  show ?thesis
    by (simp add: msft_projections)
qed

text \<open>
  A discount rate of 3 percent under a terminal growth rate of 5 percent, after one
  projected year with a cash flow of 100: the call returns \<open>100 * 1.05 / (0.03 - 0.05)\<close>.
\<close>

theorem terminal_value_rate_check_counterexample:
  "projections (snd (project_fcf (init ''Acme'' 100 1) [0])) \<noteq> [] \<and>
   (3 / 100 :: real) \<le> 5 / 100 \<and>
   fst (calculate_terminal_value (snd (project_fcf (init ''Acme'' 100 1) [0]))
          (5 / 100) (3 / 100)) = Inr (- 5250)"
  by (simp add: calculate_terminal_value_def project_fcf_def init_def
      py_getitem_def py_truediv_def Let_def)

subsection \<open>The present values\<close>

lemma calculate_pv_loop_map:
  assumes "\<forall>p \<in> set ps. 0 \<le> Year p" and "1 + discount_rate \<noteq> 0"
  shows "calculate_pv_loop ps discount_rate pv_fcfs =
           Inr (pv_fcfs @ map (\<lambda>p. FCF p / (1 + discount_rate) ^ nat (Year p)) ps)"
  using assms
  by (induction ps arbitrary: pv_fcfs) (simp_all add: py_pow_def py_truediv_def)

text \<open>
  C3. Before any projection, \<^verbatim>\<open>calculate_terminal_value\<close> raises
  \<^verbatim>\<open>ValueError("Run project_fcf() first")\<close> (lemma
  \<open>calculate_terminal_value_before_projection\<close>), but \<^verbatim>\<open>calculate_pv\<close> has no such
  test: its loop runs over the empty list and the call returns the empty list.
\<close>

theorem calculate_pv_before_projection:
  "projections msft = [] \<and> calculate_pv msft (7 / 100) = (Inr [], msft)"
  by (simp add: calculate_pv_def msft_def init_def)

subsection \<open>The enterprise value\<close>

lemma sum_list_map_years:
  fixes f :: "projection \<Rightarrow> real"
  shows "sum_list (map f ps) = (\<Sum>y = 1..length ps. f (ps ! (y - 1)))"
proof -
  have "sum_list (map f ps) = (\<Sum>k = 0..<length ps. f (ps ! k))"
    by (simp add: sum_list_sum_nth)
  also have "\<dots> = (\<Sum>y = 1..length ps. f (ps ! (y - 1)))"
    by (simp add: sum.atLeast1_atMost_eq atLeast0LessThan)
  finally show ?thesis .
qed

text \<open>
  C4, as the code has it. For an object with at least one projection year, as many growth
  rates as years, a discount rate above the terminal growth rate and different from
  \<open>-1\<close>, \<^verbatim>\<open>calculate_enterprise_value\<close> returns a result in which the present value of
  the projected cash flows is the sum over the years \<open>y = 1..n\<close> of the year's projected
  cash flow divided by \<open>(1 + wacc) ^ y\<close>, the present value of the terminal value is the
  terminal value divided by \<open>(1 + wacc) ^ n\<close>, and the enterprise value is the sum of the
  two. The object is left holding the projections.
\<close>

theorem enterprise_value_formula:
  assumes "int (length growth_rates) = fcf_growth_years e"
    and "0 < fcf_growth_years e"
    and "terminal_growth_rate < wacc"
    and "wacc \<noteq> - 1"
  shows "let ps = projections (snd (project_fcf e growth_rates));
             n = length growth_rates;
             pv_fcf_sum = (\<Sum>y = 1..n. FCF (ps ! (y - 1)) / (1 + wacc) ^ y);
             terminal_value = FCF (last ps) * (1 + terminal_growth_rate) /
                              (wacc - terminal_growth_rate);
             pv_terminal_value = terminal_value / (1 + wacc) ^ n
         in calculate_enterprise_value e growth_rates terminal_growth_rate wacc =
              (Inr \<lparr>PV_of_Projected_FCFs = pv_fcf_sum,
                    Terminal_Value = terminal_value,
                    PV_of_Terminal_Value = pv_terminal_value,
                    Enterprise_Value = pv_fcf_sum + pv_terminal_value\<rparr>,
               e\<lparr>projections := ps\<rparr>)"
proof -
  let ?n = "length growth_rates"
  let ?e1 = "snd (project_fcf e growth_rates)"
  from project_fcf_succeeds [OF assms(1)] obtain ps where
    run: "project_fcf e growth_rates = (Inr ps, e\<lparr>projections := ps\<rparr>)" and
    len: "length ps = ?n" and
    ent: "\<And>k. k < ?n \<Longrightarrow>
            Year (ps ! k) = int k + 1 \<and>
            Growth_Rate (ps ! k) = growth_rates ! k \<and>
            FCF (ps ! k) = (if k = 0 then fcf_base e else FCF (ps ! (k - 1))) *
                           (1 + growth_rates ! k)"
    by blast
  have ps: "projections ?e1 = ps"
    by (simp add: run)
  have nonempty: "ps \<noteq> []"
    using len assms(1,2) by auto
  have rate: "1 + wacc \<noteq> 0"
    using assms(4) by simp
  have years: "\<forall>p \<in> set ps. 0 \<le> Year p"
    using ent len by (auto simp: in_set_conv_nth)
  have pv: "calculate_pv (e\<lparr>projections := ps\<rparr>) wacc =
              (Inr (map (\<lambda>p. FCF p / (1 + wacc) ^ nat (Year p)) ps), e\<lparr>projections := ps\<rparr>)"
    by (simp add: calculate_pv_def calculate_pv_loop_map [OF years rate])
  have "sum_list (map (\<lambda>p. FCF p / (1 + wacc) ^ nat (Year p)) ps) =
          (\<Sum>y = 1..length ps. FCF (ps ! (y - 1)) / (1 + wacc) ^ nat (Year (ps ! (y - 1))))"
    by (rule sum_list_map_years)
  also have "\<dots> = (\<Sum>y = 1..?n. FCF (ps ! (y - 1)) / (1 + wacc) ^ y)"
  proof (rule sum.cong)
    show "{1..length ps} = {1..?n}" by (simp add: len)
    fix y assume "y \<in> {1..?n}"
    then have "y - 1 < ?n" and "0 < y" by auto
    with ent [of "y - 1"] have "nat (Year (ps ! (y - 1))) = y" by simp
    then show "FCF (ps ! (y - 1)) / (1 + wacc) ^ nat (Year (ps ! (y - 1))) =
               FCF (ps ! (y - 1)) / (1 + wacc) ^ y" by simp
  qed
  finally have total: "py_sum (map (\<lambda>p. FCF p / (1 + wacc) ^ nat (Year p)) ps) =
                         (\<Sum>y = 1..?n. FCF (ps ! (y - 1)) / (1 + wacc) ^ y)"
    by (simp add: py_sum_sum_list)
  have tv: "calculate_terminal_value (e\<lparr>projections := ps\<rparr>) terminal_growth_rate wacc =
              (Inr (FCF (last ps) * (1 + terminal_growth_rate) / (wacc - terminal_growth_rate)),
               e\<lparr>projections := ps\<rparr>)"
    using nonempty assms(3) by (simp add: calculate_terminal_value_nonempty py_truediv_def)
  have pow: "py_pow (1 + wacc) (fcf_growth_years e) = Inr ((1 + wacc) ^ ?n)"
    using assms(1,2) by (simp add: py_pow_def flip: assms(1))
  have div: "py_truediv x ((1 + wacc) ^ ?n) = Inr (x / (1 + wacc) ^ ?n)" for x
    using rate by (simp add: py_truediv_def)
  show ?thesis
    unfolding Let_def ps
    by (simp add: calculate_enterprise_value_def run pv total tv pow div Let_def)
qed

theorem enterprise_value_formula_witness:
  "int (length fcf_growth_rates) = fcf_growth_years msft \<and>
   0 < fcf_growth_years msft \<and> (25 / 1000 :: real) < 7 / 100 \<and> (7 / 100 :: real) \<noteq> - 1 \<and>
   fst (calculate_enterprise_value msft fcf_growth_rates (25 / 1000) (7 / 100)) =
     Inr \<lparr>PV_of_Projected_FCFs = 279765900000 / 1225043,
          Terminal_Value = 18136555533 / 12500,
          PV_of_Terminal_Value = 1267293600000 / 1225043,
          Enterprise_Value = 14458500000 / 11449\<rparr>"
proof -
  have h1: "int (length fcf_growth_rates) = fcf_growth_years msft"
    by (simp add: fcf_growth_rates_def msft_def init_def)
  have h2: "0 < fcf_growth_years msft"
    by (simp add: msft_def init_def)
  have h3: "(25 / 1000 :: real) < 7 / 100" by simp
  have h4: "(7 / 100 :: real) \<noteq> - 1" by simp
  have years: "{Suc 0..5} = {1, 2, 3, 4, 5}" by auto
  have n: "length fcf_growth_rates = 5" by (simp add: fcf_growth_rates_def)
  from enterprise_value_formula [OF h1 h2 h3 h4]
  have "fst (calculate_enterprise_value msft fcf_growth_rates (25 / 1000) (7 / 100)) =
     Inr \<lparr>PV_of_Projected_FCFs = 279765900000 / 1225043,
          Terminal_Value = 18136555533 / 12500,
          PV_of_Terminal_Value = 1267293600000 / 1225043,
          Enterprise_Value = 14458500000 / 11449\<rparr>"
    by (simp add: Let_def msft_projections n years power_divide)
  with h1 h2 h3 h4 show ?thesis by blast
qed

text \<open>
  A discount rate of \<open>-1\<close> is above a terminal growth rate of \<open>-2\<close>, and the discount
  factor \<^verbatim>\<open>(1 + discount_rate) ** year\<close> is then zero: the division in
  \<^verbatim>\<open>calculate_pv\<close> raises.
\<close>

theorem enterprise_value_zero_discount_factor:
  "int (length [0 :: real]) = fcf_growth_years (init ''Acme'' 100 1) \<and>
   (- 2 :: real) < - 1 \<and>
   fst (calculate_enterprise_value (init ''Acme'' 100 1) [0] (- 2) (- 1)) =
     Inl ZeroDivisionError"
  by (simp add: calculate_enterprise_value_def project_fcf_def calculate_pv_def init_def
      py_getitem_def py_pow_def py_truediv_def Let_def)

text \<open>With no projection year and no growth rate, the projections stay empty and the
  terminal value raises.\<close>

lemma enterprise_value_no_years:
  "fst (calculate_enterprise_value (init ''Acme'' 100 0) [] (2 / 100) (7 / 100)) =
     Inl (ValueError Run_project_fcf_first)"
  by (simp add: calculate_enterprise_value_def project_fcf_def calculate_pv_def
      calculate_terminal_value_def init_def py_sum_def Let_def)

lemma project_fcf_forgets_projections:
  assumes "int (length growth_rates) = fcf_growth_years e"
  shows "project_fcf (e\<lparr>projections := qs\<rparr>) growth_rates = project_fcf e growth_rates"
  using assms by (simp add: project_fcf_def)

lemma calculate_enterprise_value_state:
  "\<exists>ps. snd (calculate_enterprise_value e growth_rates g wacc) = e\<lparr>projections := ps\<rparr>"
proof (cases "int (length growth_rates) = fcf_growth_years e")
  case True
  from project_fcf_succeeds [OF True] obtain ps where
    run: "project_fcf e growth_rates = (Inr ps, e\<lparr>projections := ps\<rparr>)"
    by blast
  have "snd (calculate_enterprise_value e growth_rates g wacc) = e\<lparr>projections := ps\<rparr>"
    by (simp add: calculate_enterprise_value_def run calculate_pv_def
        calculate_terminal_value_def Let_def split: sum.split prod.split)
  then show ?thesis ..
next
  case False
  then have "snd (calculate_enterprise_value e growth_rates g wacc) =
               e\<lparr>projections := projections e\<rparr>"
    by (simp add: calculate_enterprise_value_def project_fcf_def)
  then show ?thesis ..
qed

lemma calculate_enterprise_value_forgets_projections:
  "fst (calculate_enterprise_value (e\<lparr>projections := qs\<rparr>) growth_rates g wacc) =
   fst (calculate_enterprise_value e growth_rates g wacc)"
proof (cases "int (length growth_rates) = fcf_growth_years e")
  case True
  then show ?thesis
    by (simp add: calculate_enterprise_value_def project_fcf_forgets_projections)
next
  case False
  then show ?thesis
    by (simp add: calculate_enterprise_value_def project_fcf_def)
qed

text \<open>
  C9. A second call of \<^verbatim>\<open>calculate_enterprise_value\<close> with the same arguments, on the
  object as the first call left it, has the outcome of the first call: the same result,
  or the same exception. The outcome does not depend on the projections the object holds
  (lemma \<open>calculate_enterprise_value_forgets_projections\<close>).
\<close>

theorem enterprise_value_repeatable:
  "fst (calculate_enterprise_value
          (snd (calculate_enterprise_value e growth_rates terminal_growth_rate wacc))
          growth_rates terminal_growth_rate wacc) =
   fst (calculate_enterprise_value e growth_rates terminal_growth_rate wacc)"
proof -
  from calculate_enterprise_value_state obtain ps where
    "snd (calculate_enterprise_value e growth_rates terminal_growth_rate wacc) =
       e\<lparr>projections := ps\<rparr>"
    by blast
  then show ?thesis
    by (simp add: calculate_enterprise_value_forgets_projections)
qed

theorem enterprise_value_repeatable_witness:
  "fst (calculate_enterprise_value
          (snd (calculate_enterprise_value msft fcf_growth_rates (25 / 1000) (7 / 100)))
          fcf_growth_rates (25 / 1000) (7 / 100)) =
     Inr \<lparr>PV_of_Projected_FCFs = 279765900000 / 1225043,
          Terminal_Value = 18136555533 / 12500,
          PV_of_Terminal_Value = 1267293600000 / 1225043,
          Enterprise_Value = 14458500000 / 11449\<rparr>"
proof -
  have "fst (calculate_enterprise_value msft fcf_growth_rates (25 / 1000) (7 / 100)) =
     Inr \<lparr>PV_of_Projected_FCFs = 279765900000 / 1225043,
          Terminal_Value = 18136555533 / 12500,
          PV_of_Terminal_Value = 1267293600000 / 1225043,
          Enterprise_Value = 14458500000 / 11449\<rparr>"
    by (simp add: calculate_enterprise_value_def project_fcf_def calculate_pv_def
        calculate_terminal_value_def fcf_growth_rates_def msft_def init_def
        py_getitem_def py_pow_def py_truediv_def py_sum_def Let_def upto_rec1 power_divide)
  with enterprise_value_repeatable [of msft fcf_growth_rates "25 / 1000" "7 / 100"]
  show ?thesis by simp
qed

subsection \<open>The equity value\<close>

text \<open>
  C8. With a positive number of shares, \<^verbatim>\<open>calculate_equity_value\<close> returns the
  enterprise value less the net debt as equity value, and that equity value divided by
  the number of shares as price per share; the object is returned as it was.
\<close>

theorem equity_value_formula:
  assumes "0 < shares_outstanding"
  shows "calculate_equity_value e enterprise_value net_debt shares_outstanding =
           (Inr \<lparr>Equity_Value = enterprise_value - net_debt,
                 Price_Per_Share = (enterprise_value - net_debt) / shares_outstanding\<rparr>, e)"
  using assms by (simp add: calculate_equity_value_def py_truediv_def Let_def)

theorem equity_value_formula_witness:
  "(0 :: real) < 8400 \<and>
   calculate_equity_value msft (14458500000 / 11449) 0 8400 =
     (Inr \<lparr>Equity_Value = 14458500000 / 11449, Price_Per_Share = 1721250 / 11449\<rparr>, msft)"
proof -
  have h: "(0 :: real) < 8400" by simp
  from equity_value_formula [OF h, of msft "14458500000 / 11449" 0] h show ?thesis
    by simp
qed

text \<open>
  C5, as the code has it. \<^verbatim>\<open>calculate_equity_value\<close> does not test the number of shares.
  With a negative number it returns the equity value and the quotient, of the opposite
  sign; with zero shares the division raises \<^verbatim>\<open>ZeroDivisionError\<close>, which is not the
  \<^verbatim>\<open>ValueError\<close> of the module. The object is unchanged in both cases.
\<close>

theorem equity_value_no_shares_check:
  assumes "shares_outstanding \<le> 0"
  shows "calculate_equity_value e enterprise_value net_debt shares_outstanding =
           (if shares_outstanding = 0 then Inl ZeroDivisionError
            else Inr \<lparr>Equity_Value = enterprise_value - net_debt,
                      Price_Per_Share = (enterprise_value - net_debt) / shares_outstanding\<rparr>,
            e)"
  using assms by (simp add: calculate_equity_value_def py_truediv_def Let_def)

theorem equity_value_no_shares_check_witness:
  "(0 :: real) \<le> 0 \<and> (- 1 :: real) \<le> 0 \<and>
   fst (calculate_equity_value msft 100 0 0) = Inl ZeroDivisionError \<and>
   fst (calculate_equity_value msft 100 0 (- 1)) =
     Inr \<lparr>Equity_Value = 100, Price_Per_Share = - 100\<rparr>"
proof -
  have h1: "(0 :: real) \<le> 0" and h2: "(- 1 :: real) \<le> 0" by simp_all
  from equity_value_no_shares_check [OF h1, of msft 100 0]
    equity_value_no_shares_check [OF h2, of msft 100 0]
  show ?thesis by simp
qed

text \<open>With \<open>-1\<close> shares the call returns a result.\<close>

theorem equity_value_shares_check_counterexample:
  "(- 1 :: real) \<le> 0 \<and>
   fst (calculate_equity_value msft 100 0 (- 1)) =
     Inr \<lparr>Equity_Value = 100, Price_Per_Share = - 100\<rparr>"
  by (simp add: calculate_equity_value_def py_truediv_def Let_def)

end
